theory Spec2Isabelle
  imports Main
begin

section \<open>Data model of \<open>innernet_manager.py\<close>\<close>

text \<open>
  The two SQLite tables of \<open>_init_db\<close>. A table is the list of its rows in insertion
  order, the order in which a scan of the table returns them to \<open>fetchone\<close> and
  \<open>fetchall\<close>.

  The column \<open>groups\<close> holds \<open>json.dumps\<close> of a list of strings and is read back with
  \<open>json.loads\<close>; the row keeps the decoded list. The column \<open>peer_count\<close> is written as 0
  by \<open>create_network\<close> and changed only by the two \<open>UPDATE\<close> statements below, so it is
  an integer. The column \<open>ip\<close> can be \<open>NULL\<close>.
\<close>

record network_row =
  n_id :: string
  n_name :: string
  n_cidr :: string
  n_description :: string
  n_created_at :: string
  n_peer_count :: int

record peer_row =
  p_id :: string
  p_network_id :: string
  p_name :: string
  p_ip :: "string option"
  p_public_key :: string
  p_allowed_ips :: string
  p_endpoint :: "string option"
  p_last_handshake :: "string option"
  p_status :: string
  p_groups :: "string list"

record db =
  networks :: "network_row list"
  peers :: "peer_row list"

definition empty_db :: db where
  "empty_db = \<lparr>networks = [], peers = []\<rparr>"

text \<open>
  The exceptions the manager can leave through: \<open>ValueError\<close> with its message, and
  \<open>sqlite3.IntegrityError\<close>, raised by an \<open>INSERT\<close> that breaks a \<open>PRIMARY KEY\<close> or
  \<open>UNIQUE\<close> constraint of the schema.
\<close>

datatype error = ValueError string | IntegrityError

subsection \<open>The \<open>ipaddress\<close> module\<close>

text \<open>
  \<open>ipaddress.ip_network\<close>, \<open>network.hosts()\<close> and \<open>str(address)\<close> belong to Python's
  standard library, not to this program, so the operations take them as a parameter:
  \<open>ip_network\<close> returns the parsed network or the message of the \<open>ValueError\<close> it
  raises, \<open>hosts\<close> the addresses in the order the iterator yields them.
\<close>

record ('n, 'a) ipaddress =
  ip_network :: "string \<Rightarrow> string + 'n"
  hosts :: "'n \<Rightarrow> 'a list"
  addr_str :: "'a \<Rightarrow> string"

section \<open>SQL statements\<close>

text \<open>\<open>INSERT INTO networks\<close>: \<open>id\<close> is the primary key and \<open>name\<close> is \<open>UNIQUE\<close>.\<close>

definition insert_network :: "network_row \<Rightarrow> db \<Rightarrow> error + db" where
  "insert_network row d =
     (if n_id row \<in> set (map n_id (networks d)) \<or> n_name row \<in> set (map n_name (networks d))
      then Inl IntegrityError
      else Inr (d\<lparr>networks := networks d @ [row]\<rparr>))"

text \<open>\<open>INSERT INTO peers\<close>: \<open>id\<close> is the primary key and \<open>(network_id, name)\<close> is
  \<open>UNIQUE\<close>. The foreign key is declared, but SQLite does not enforce it unless
  \<open>PRAGMA foreign_keys\<close> is switched on, which the program never does.\<close>

definition insert_peer :: "peer_row \<Rightarrow> db \<Rightarrow> error + db" where
  "insert_peer row d =
     (if p_id row \<in> set (map p_id (peers d))
         \<or> (p_network_id row, p_name row) \<in> set (map (\<lambda>p. (p_network_id p, p_name p)) (peers d))
      then Inl IntegrityError
      else Inr (d\<lparr>peers := peers d @ [row]\<rparr>))"

text \<open>\<open>SELECT ... FROM networks WHERE id = ?\<close> followed by \<open>fetchone()\<close>.\<close>

definition select_network :: "db \<Rightarrow> string \<Rightarrow> network_row option" where
  "select_network d network_id = find (\<lambda>n. n_id n = network_id) (networks d)"

text \<open>\<open>SELECT ... FROM peers WHERE network_id = ?\<close> followed by \<open>fetchall()\<close>.\<close>

definition select_peers :: "db \<Rightarrow> string \<Rightarrow> peer_row list" where
  "select_peers d network_id = filter (\<lambda>p. p_network_id p = network_id) (peers d)"

text \<open>\<open>SELECT ... FROM peers WHERE name = ?\<close> followed by \<open>fetchone()\<close>.\<close>

definition select_peer_by_name :: "db \<Rightarrow> string \<Rightarrow> peer_row option" where
  "select_peer_by_name d peer_name = find (\<lambda>p. p_name p = peer_name) (peers d)"

text \<open>\<open>UPDATE networks SET peer_count = peer_count + 1 WHERE id = ?\<close>.\<close>

definition increment_peer_count :: "string \<Rightarrow> db \<Rightarrow> db" where
  "increment_peer_count network_id d =
     d\<lparr>networks := map (\<lambda>n. if n_id n = network_id
                               then n\<lparr>n_peer_count := n_peer_count n + 1\<rparr> else n) (networks d)\<rparr>"

text \<open>\<open>UPDATE networks SET peer_count = peer_count - 1 WHERE id = ? AND peer_count > 0\<close>.\<close>

definition decrement_peer_count :: "string \<Rightarrow> db \<Rightarrow> db" where
  "decrement_peer_count network_id d =
     d\<lparr>networks := map (\<lambda>n. if n_id n = network_id \<and> n_peer_count n > 0
                               then n\<lparr>n_peer_count := n_peer_count n - 1\<rparr> else n) (networks d)\<rparr>"

text \<open>\<open>DELETE FROM peers WHERE network_id = ? AND name = ?\<close>.\<close>

definition delete_peer :: "string \<Rightarrow> string \<Rightarrow> db \<Rightarrow> db" where
  "delete_peer network_id peer_name d =
     d\<lparr>peers := filter (\<lambda>p. \<not> (p_network_id p = network_id \<and> p_name p = peer_name)) (peers d)\<rparr>"

text \<open>\<open>UPDATE peers SET groups = ? WHERE name = ?\<close>.\<close>

definition update_groups :: "string list \<Rightarrow> string \<Rightarrow> db \<Rightarrow> db" where
  "update_groups gs peer_name d =
     d\<lparr>peers := map (\<lambda>p. if p_name p = peer_name then p\<lparr>p_groups := gs\<rparr> else p) (peers d)\<rparr>"

section \<open>The operations of \<open>InnernetManager\<close>\<close>

subsection \<open>\<open>create_network\<close>\<close>

text \<open>
  The fresh \<open>uuid.uuid4()\<close> and the \<open>datetime.now()\<close> of the \<open>Network\<close> dataclass are
  arguments. The result is the new database and the returned identifier; an exception
  leaves the database as it was (the \<open>with\<close> block rolls back).
\<close>

definition create_network ::
  "('n, 'a) ipaddress \<Rightarrow> db \<Rightarrow> string \<Rightarrow> string \<Rightarrow> string \<Rightarrow> string \<Rightarrow> string
     \<Rightarrow> error + (db \<times> string)" where
  "create_network L d name cidr description uuid now =
     (case ip_network L cidr of
        Inl _ \<Rightarrow> Inl (ValueError (''Invalid CIDR: '' @ cidr))
      | Inr _ \<Rightarrow>
          (case insert_network
                  \<lparr>n_id = uuid, n_name = name, n_cidr = cidr, n_description = description,
                   n_created_at = now, n_peer_count = 0\<rparr> d of
             Inl e \<Rightarrow> Inl e
           | Inr d' \<Rightarrow> Inr (d', uuid)))"

subsection \<open>\<open>add_peer\<close>\<close>

text \<open>\<open>{row[0] for row in cursor.fetchall() if row[0]}\<close>: the addresses of the rows
  that are neither \<open>NULL\<close> nor the empty string.\<close>

fun truthy :: "string option list \<Rightarrow> string list" where
  "truthy [] = []"
| "truthy (None # rs) = truthy rs"
| "truthy (Some a # rs) = (if a = [] then truthy rs else a # truthy rs)"

definition existing_ips :: "db \<Rightarrow> string \<Rightarrow> string list" where
  "existing_ips d network_id = truthy (map p_ip (select_peers d network_id))"

text \<open>The loop over \<open>network.hosts()\<close>: the first candidate whose string is not in
  \<open>existing_ips\<close> is taken and the loop left; when the loop runs to its end, \<open>ip\<close> is
  still \<open>None\<close>.\<close>

fun first_free :: "('a \<Rightarrow> string) \<Rightarrow> string set \<Rightarrow> 'a list \<Rightarrow> string option" where
  "first_free s existing [] = None"
| "first_free s existing (candidate # rest) =
     (if s candidate \<notin> existing then Some (s candidate) else first_free s existing rest)"

text \<open>\<open>f"{ip}/32"\<close>: formatting \<open>None\<close> gives the text \<open>None\<close>.\<close>

definition format_ip :: "string option \<Rightarrow> string" where
  "format_ip ip = (case ip of None \<Rightarrow> ''None'' | Some a \<Rightarrow> a)"

text \<open>The \<open>Peer\<close> dataclass as it is inserted: endpoint and last handshake are
  \<open>None\<close>, the groups are \<open>json.dumps([])\<close>.\<close>

definition new_peer :: "string \<Rightarrow> string \<Rightarrow> string \<Rightarrow> string option \<Rightarrow> string \<Rightarrow> peer_row" where
  "new_peer uuid network_id name ip public_key =
     \<lparr>p_id = uuid, p_network_id = network_id, p_name = name, p_ip = ip,
      p_public_key = public_key, p_allowed_ips = format_ip ip @ ''/32'',
      p_endpoint = None, p_last_handshake = None, p_status = ''disconnected'',
      p_groups = []\<rparr>"

text \<open>The second \<open>with\<close> block of \<open>add_peer\<close>: insert the row, then count it.\<close>

definition store_peer :: "db \<Rightarrow> string \<Rightarrow> string \<Rightarrow> string option \<Rightarrow> string \<Rightarrow> string
     \<Rightarrow> error + (db \<times> string)" where
  "store_peer d network_id name ip uuid public_key =
     (case insert_peer (new_peer uuid network_id name ip public_key) d of
        Inl e \<Rightarrow> Inl e
      | Inr d' \<Rightarrow> Inr (increment_peer_count network_id d', uuid))"

text \<open>
  \<open>add_peer(network_id, name, ip)\<close>; \<open>uuid\<close> is the fresh \<open>uuid.uuid4()\<close> and
  \<open>public_key\<close> the encoded \<open>os.urandom(32)\<close>. The stored CIDR is parsed again only when
  no address is given; a \<open>ValueError\<close> of \<open>ip_network\<close> is not caught there.
\<close>

definition add_peer ::
  "('n, 'a) ipaddress \<Rightarrow> db \<Rightarrow> string \<Rightarrow> string \<Rightarrow> string option \<Rightarrow> string \<Rightarrow> string
     \<Rightarrow> error + (db \<times> string)" where
  "add_peer L d network_id name ip uuid public_key =
     (case select_network d network_id of
        None \<Rightarrow> Inl (ValueError (''Network '' @ network_id @ '' not found''))
      | Some result \<Rightarrow>
          (case ip of
             Some a \<Rightarrow> store_peer d network_id name (Some a) uuid public_key
           | None \<Rightarrow>
               (case ip_network L (n_cidr result) of
                  Inl msg \<Rightarrow> Inl (ValueError msg)
                | Inr network \<Rightarrow>
                    store_peer d network_id name
                      (first_free (addr_str L) (set (existing_ips d network_id)) (hosts L network))
                      uuid public_key)))"

subsection \<open>\<open>remove_peer\<close>\<close>

definition remove_peer :: "db \<Rightarrow> string \<Rightarrow> string \<Rightarrow> error + db" where
  "remove_peer d network_id peer_name =
     Inr (decrement_peer_count network_id (delete_peer network_id peer_name d))"

subsection \<open>\<open>get_status\<close>\<close>

record status_report =
  r_networks :: "network_row list"
  r_connected_peers :: nat
  r_total_peers :: int
  r_timestamp :: string

text \<open>The report and the database the call leaves behind; \<open>now\<close> is
  \<open>datetime.now().isoformat()\<close>.\<close>

definition get_status :: "db \<Rightarrow> string \<Rightarrow> db \<times> status_report" where
  "get_status d now =
     (let nets = networks d;
          connected = length (filter (\<lambda>p. p_status p = ''connected'') (peers d))
      in (d, \<lparr>r_networks = nets, r_connected_peers = connected,
               r_total_peers = sum_list (map n_peer_count nets), r_timestamp = now\<rparr>))"

subsection \<open>\<open>assign_group\<close>\<close>

definition valid_groups :: "string list" where
  "valid_groups = [''admin'', ''workers'', ''sensors'', ''public'', ''internal'']"

definition assign_group :: "db \<Rightarrow> string \<Rightarrow> string \<Rightarrow> error + db" where
  "assign_group d peer_name grp =
     (if grp \<notin> set valid_groups then Inl (ValueError (''Invalid group: '' @ grp))
      else
        (case select_peer_by_name d peer_name of
           None \<Rightarrow> Inl (ValueError (''Peer '' @ peer_name @ '' not found''))
         | Some result \<Rightarrow>
             (let groups = p_groups result;
                  groups' = (if grp \<notin> set groups then groups @ [grp] else groups)
              in Inr (update_groups groups' peer_name d))))"

section \<open>Sequences of calls\<close>

text \<open>
  A caller's sequence of \<open>add_peer\<close> and \<open>remove_peer\<close> calls. A call that raises
  leaves the database as it was, and the caller goes on with the next call.
\<close>

datatype call =
  AddPeer string string "string option" string string
| RemovePeer string string

fun run_call :: "('n, 'a) ipaddress \<Rightarrow> db \<Rightarrow> call \<Rightarrow> db" where
  "run_call L d (AddPeer network_id name ip uuid public_key) =
     (case add_peer L d network_id name ip uuid public_key of
        Inl e \<Rightarrow> d
      | Inr (d', peer_id) \<Rightarrow> d')"
| "run_call L d (RemovePeer network_id peer_name) =
     (case remove_peer d network_id peer_name of
        Inl e \<Rightarrow> d
      | Inr d' \<Rightarrow> d')"

fun run_calls :: "('n, 'a) ipaddress \<Rightarrow> db \<Rightarrow> call list \<Rightarrow> db" where
  "run_calls L d [] = d"
| "run_calls L d (c # cs) = run_calls L (run_call L d c) cs"

text \<open>The number of peer rows that reference a network.\<close>

definition peer_rows :: "db \<Rightarrow> string \<Rightarrow> nat" where
  "peer_rows d network_id = length (select_peers d network_id)"

text \<open>The stored \<open>peer_count\<close> of a network, when the network exists.\<close>

definition peer_count_of :: "db \<Rightarrow> string \<Rightarrow> int option" where
  "peer_count_of d network_id = map_option n_peer_count (select_network d network_id)"

text \<open>No network has a negative \<open>peer_count\<close>.\<close>

definition counts_nonneg :: "db \<Rightarrow> bool" where
  "counts_nonneg d = list_all (\<lambda>n. 0 \<le> n_peer_count n) (networks d)"

text \<open>Along a sequence of calls, every address given explicitly is one that no peer of
  that network holds at the moment of the call.\<close>

fun explicit_ips_unused :: "('n, 'a) ipaddress \<Rightarrow> db \<Rightarrow> call list \<Rightarrow> bool" where
  "explicit_ips_unused L d [] = True"
| "explicit_ips_unused L d (AddPeer network_id name (Some a) uuid public_key # cs) =
     (a \<notin> set (existing_ips d network_id)
      \<and> explicit_ips_unused L (run_call L d (AddPeer network_id name (Some a) uuid public_key)) cs)"
| "explicit_ips_unused L d (c # cs) = explicit_ips_unused L (run_call L d c) cs"

section \<open>An instance of the library: IPv4 networks written \<open>a.b.c.d/prefixlen\<close>\<close>

text \<open>
  What \<open>ipaddress\<close> does on the strings of the form \<open>a.b.c.d\<close> and \<open>a.b.c.d/n\<close>, after the
  module's documentation; it serves the concrete runs below. Dotted netmasks after the
  slash and IPv6 networks, which the module also accepts, are outside this instance
  (it rejects them), so no general statement below depends on it.
\<close>

record ipv4_network =
  network_address :: nat
  prefixlen :: nat

text \<open>\<open>s.split(sep)\<close> for a separator of one character.\<close>

fun split_on :: "char \<Rightarrow> string \<Rightarrow> string list" where
  "split_on sep [] = [[]]"
| "split_on sep (x # xs) =
     (if x = sep then [] # split_on sep xs
      else (case split_on sep xs of [] \<Rightarrow> [[x]] | w # ws \<Rightarrow> (x # w) # ws))"

definition is_digit :: "char \<Rightarrow> bool" where
  "is_digit c = (48 \<le> (of_char c :: nat) \<and> (of_char c :: nat) \<le> 57)"

fun int_of_digits :: "nat \<Rightarrow> string \<Rightarrow> nat" where
  "int_of_digits acc [] = acc"
| "int_of_digits acc (c # cs) = int_of_digits (10 * acc + (of_char c - 48)) cs"

text \<open>\<open>_parse_octet\<close>: one to three decimal digits, no leading zero, at most 255.\<close>

definition parse_octet :: "string \<Rightarrow> nat option" where
  "parse_octet s =
     (if s = [] then None
      else if \<not> list_all is_digit s then None
      else if length s > 3 then None
      else if s \<noteq> ''0'' \<and> hd s = CHR ''0'' then None
      else if int_of_digits 0 s > 255 then None
      else Some (int_of_digits 0 s))"

definition parse_ipv4 :: "string \<Rightarrow> nat option" where
  "parse_ipv4 s =
     (case map parse_octet (split_on CHR ''.'' s) of
        [Some a, Some b, Some c, Some d] \<Rightarrow> Some (((a * 256 + b) * 256 + c) * 256 + d)
      | _ \<Rightarrow> None)"

text \<open>\<open>_prefix_from_prefix_string\<close>: decimal digits, at most 32.\<close>

definition parse_prefix :: "string \<Rightarrow> nat option" where
  "parse_prefix s =
     (if s = [] then None
      else if \<not> list_all is_digit s then None
      else if int_of_digits 0 s > 32 then None
      else Some (int_of_digits 0 s))"

definition not_a_network :: "string \<Rightarrow> string" where
  "not_a_network cidr = cidr @ '' does not appear to be an IPv4 or IPv6 network''"

text \<open>\<open>ip_network(cidr)\<close> with the default \<open>strict=True\<close>: an address with host bits
  set is refused.\<close>

definition ipv4_ip_network :: "string \<Rightarrow> string + ipv4_network" where
  "ipv4_ip_network cidr =
     (case split_on CHR ''/'' cidr of
        [a] \<Rightarrow>
          (case parse_ipv4 a of
             None \<Rightarrow> Inl (not_a_network cidr)
           | Some n \<Rightarrow> Inr \<lparr>network_address = n, prefixlen = 32\<rparr>)
      | [a, p] \<Rightarrow>
          (case parse_ipv4 a of
             None \<Rightarrow> Inl (not_a_network cidr)
           | Some n \<Rightarrow>
               (case parse_prefix p of
                  None \<Rightarrow> Inl (not_a_network cidr)
                | Some k \<Rightarrow>
                    if n mod 2 ^ (32 - k) \<noteq> 0 then Inl (cidr @ '' has host bits set'')
                    else Inr \<lparr>network_address = n, prefixlen = k\<rparr>))
      | _ \<Rightarrow> Inl (not_a_network cidr))"

text \<open>\<open>hosts()\<close>: the addresses strictly between the network address and the
  broadcast address, in ascending order; both addresses of a /31 and the one address
  of a /32.\<close>

definition ipv4_hosts :: "ipv4_network \<Rightarrow> nat list" where
  "ipv4_hosts net =
     (let n = network_address net; k = prefixlen net
      in if k = 31 then [n, n + 1]
         else if k = 32 then [n]
         else [n + 1 ..< n + 2 ^ (32 - k) - 1])"

text \<open>\<open>str(address)\<close>: the four octets in decimal, joined by dots.\<close>

definition digit_char :: "nat \<Rightarrow> char" where
  "digit_char k = ''0123456789'' ! k"

definition octet_str :: "nat \<Rightarrow> string" where
  "octet_str b =
     (if b < 10 then [digit_char b]
      else if b < 100 then [digit_char (b div 10), digit_char (b mod 10)]
      else [digit_char (b div 100), digit_char (b div 10 mod 10), digit_char (b mod 10)])"

definition ipv4_str :: "nat \<Rightarrow> string" where
  "ipv4_str a =
     octet_str (a div 16777216 mod 256) @ ''.'' @ octet_str (a div 65536 mod 256) @ ''.''
       @ octet_str (a div 256 mod 256) @ ''.'' @ octet_str (a mod 256)"

definition ipv4 :: "(ipv4_network, nat) ipaddress" where
  "ipv4 = \<lparr>ip_network = ipv4_ip_network, hosts = ipv4_hosts, addr_str = ipv4_str\<rparr>"

section \<open>A worked database: the network \<open>Lab\<close> on \<open>10.0.0.0/30\<close>\<close>

text \<open>The states that the calls \<open>create_network("Lab", "10.0.0.0/30")\<close> and
  \<open>add_peer\<close> for the peers \<open>a\<close>, \<open>b\<close> and \<open>c\<close> go through, with the identifiers,
  keys and time stamp fixed.\<close>

definition lab_network :: "int \<Rightarrow> network_row" where
  "lab_network c =
     \<lparr>n_id = ''net-1'', n_name = ''Lab'', n_cidr = ''10.0.0.0/30'', n_description = [],
      n_created_at = ''t0'', n_peer_count = c\<rparr>"

definition lab :: "int \<Rightarrow> peer_row list \<Rightarrow> db" where
  "lab c ps = \<lparr>networks = [lab_network c], peers = ps\<rparr>"

definition peer_a :: peer_row where
  "peer_a = new_peer ''peer-1'' ''net-1'' ''a'' (Some ''10.0.0.1'') ''key-1''"

definition peer_b :: peer_row where
  "peer_b = new_peer ''peer-2'' ''net-1'' ''b'' (Some ''10.0.0.2'') ''key-2''"

definition peer_c :: peer_row where
  "peer_c = new_peer ''peer-3'' ''net-1'' ''c'' None ''key-3''"

text \<open>The row that \<open>add_peer\<close> stores for \<open>b\<close> when the caller passes the address
  \<open>10.0.0.1\<close>.\<close>

definition peer_twin :: peer_row where
  "peer_twin = new_peer ''peer-2'' ''net-1'' ''b'' (Some ''10.0.0.1'') ''key-2''"

section \<open>Evaluation of the worked database\<close>

lemma ipv4_lab_network:
  "ipv4_ip_network ''10.0.0.0/30'' = Inr \<lparr>network_address = 167772160, prefixlen = 30\<rparr>"
  by (simp add: ipv4_ip_network_def parse_ipv4_def parse_octet_def parse_prefix_def is_digit_def)

lemma ipv4_lab_hosts:
  "map ipv4_str (ipv4_hosts \<lparr>network_address = 167772160, prefixlen = 30\<rparr>)
     = [''10.0.0.1'', ''10.0.0.2'']"
  by (simp add: ipv4_hosts_def ipv4_str_def octet_str_def digit_char_def upt_rec)

lemma first_free_map: "first_free s E xs = first_free id E (map s xs)"
  by (induction xs) simp_all

lemma lab_first_free:
  "first_free ipv4_str E (ipv4_hosts \<lparr>network_address = 167772160, prefixlen = 30\<rparr>)
     = first_free id E [''10.0.0.1'', ''10.0.0.2'']"
  by (simp only: first_free_map [of ipv4_str] ipv4_lab_hosts)

lemma lab_select_network: "select_network (lab c ps) ''net-1'' = Some (lab_network c)"
  by (simp add: select_network_def lab_def lab_network_def)

lemma lab_create:
  "create_network ipv4 empty_db ''Lab'' ''10.0.0.0/30'' [] ''net-1'' ''t0'' = Inr (lab 0 [], ''net-1'')"
  by (simp add: create_network_def ipv4_def ipv4_lab_network insert_network_def empty_db_def
      lab_def lab_network_def)

lemma lab_increment: "increment_peer_count ''net-1'' (lab c ps) = lab (c + 1) ps"
  by (simp add: increment_peer_count_def lab_def lab_network_def)

lemma lab_add_auto:
  "add_peer ipv4 (lab c ps) ''net-1'' name None uuid key
     = store_peer (lab c ps) ''net-1'' name
         (first_free id (set (existing_ips (lab c ps) ''net-1'')) [''10.0.0.1'', ''10.0.0.2''])
         uuid key"
  by (simp add: add_peer_def lab_select_network ipv4_def lab_network_def ipv4_lab_network
      lab_first_free)

lemma lab_add_a:
  "add_peer ipv4 (lab 0 []) ''net-1'' ''a'' None ''peer-1'' ''key-1'' = Inr (lab 1 [peer_a], ''peer-1'')"
  by (subst lab_add_auto)
    (simp add: existing_ips_def select_peers_def store_peer_def insert_peer_def
      peer_a_def lab_def increment_peer_count_def lab_network_def)

lemma lab_add_b:
  "add_peer ipv4 (lab 1 [peer_a]) ''net-1'' ''b'' None ''peer-2'' ''key-2''
     = Inr (lab 2 [peer_a, peer_b], ''peer-2'')"
  by (subst lab_add_auto)
    (simp add: existing_ips_def select_peers_def store_peer_def insert_peer_def
      peer_a_def peer_b_def new_peer_def lab_def increment_peer_count_def lab_network_def)

lemma lab_add_c:
  "add_peer ipv4 (lab 2 [peer_a, peer_b]) ''net-1'' ''c'' None ''peer-3'' ''key-3''
     = Inr (lab 3 [peer_a, peer_b, peer_c], ''peer-3'')"
  by (subst lab_add_auto)
    (simp add: existing_ips_def select_peers_def store_peer_def insert_peer_def
      peer_a_def peer_b_def peer_c_def new_peer_def lab_def increment_peer_count_def
      lab_network_def)

lemma lab_remove_absent:
  "remove_peer (lab 1 [peer_a]) ''net-1'' ''b'' = Inr (lab 0 [peer_a])"
  by (simp add: remove_peer_def delete_peer_def decrement_peer_count_def lab_def
      lab_network_def peer_a_def new_peer_def)

section \<open>Facts about the operations\<close>

lemma store_peer_Inr:
  assumes "store_peer d network_id name ip uuid public_key = Inr (d', peer_id)"
  shows "peer_id = uuid"
    and "d' = increment_peer_count network_id
                (d\<lparr>peers := peers d @ [new_peer uuid network_id name ip public_key]\<rparr>)"
  using assms by (auto simp: store_peer_def insert_peer_def split: if_splits)

lemma add_peer_Inr:
  assumes "add_peer L d network_id name ip uuid public_key = Inr (d', peer_id)"
  obtains ip' where "store_peer d network_id name ip' uuid public_key = Inr (d', peer_id)"
    and "ip \<noteq> None \<Longrightarrow> ip' = ip"
  using assms by (auto simp: add_peer_def split: option.splits sum.splits)

lemma peers_increment [simp]: "peers (increment_peer_count network_id d) = peers d"
  by (simp add: increment_peer_count_def)

text \<open>When the network exists, the identifier and the name are free and the peer
  gets an address (the caller's, or the first free host), \<open>add_peer\<close> succeeds and
  appends exactly this row: disconnected, no endpoint, no last handshake, no groups,
  and the address followed by \<open>/32\<close> as its allowed-IP mask.\<close>

lemma add_peer_stores_row:
  assumes "select_network d network_id = Some result"
    and "uuid \<notin> set (map p_id (peers d))"
    and "(network_id, name) \<notin> set (map (\<lambda>p. (p_network_id p, p_name p)) (peers d))"
    and "ip = Some a
         \<or> (ip = None \<and> ip_network L (n_cidr result) = Inr network
             \<and> first_free (addr_str L) (set (existing_ips d network_id)) (hosts L network) = Some a)"
  shows "add_peer L d network_id name ip uuid public_key
           = Inr (increment_peer_count network_id
                    (d\<lparr>peers := peers d @
                         [\<lparr>p_id = uuid, p_network_id = network_id, p_name = name,
                           p_ip = Some a, p_public_key = public_key,
                           p_allowed_ips = a @ ''/32'', p_endpoint = None,
                           p_last_handshake = None, p_status = ''disconnected'',
                           p_groups = []\<rparr>]\<rparr>),
                  uuid)"
  using assms
  by (auto simp: add_peer_def store_peer_def insert_peer_def new_peer_def format_ip_def)

text \<open>C5: \<open>create_network\<close> raises \<open>ValueError("Invalid CIDR: ...")\<close> when \<open>ip_network\<close>
  rejects the prefix; with a prefix that parses it raises the \<open>IntegrityError\<close> of the
  \<open>UNIQUE\<close> constraint when a network of that name exists; and otherwise, the
  identifier being fresh, it appends the network with \<open>peer_count = 0\<close> and returns the
  identifier.\<close>

theorem create_network_outcomes:
  "(isl (ip_network L cidr) \<longrightarrow>
      create_network L d name cidr descr uuid now = Inl (ValueError (''Invalid CIDR: '' @ cidr)))
   \<and> (\<not> isl (ip_network L cidr) \<and> name \<in> set (map n_name (networks d)) \<longrightarrow>
        create_network L d name cidr descr uuid now = Inl IntegrityError)
   \<and> (\<not> isl (ip_network L cidr) \<and> name \<notin> set (map n_name (networks d))
        \<and> uuid \<notin> set (map n_id (networks d)) \<longrightarrow>
        create_network L d name cidr descr uuid now
          = Inr (d\<lparr>networks := networks d @
                     [\<lparr>n_id = uuid, n_name = name, n_cidr = cidr, n_description = descr,
                       n_created_at = now, n_peer_count = 0\<rparr>]\<rparr>, uuid))"
  by (cases "ip_network L cidr") (simp_all add: create_network_def insert_network_def)

lemma ipv4_rejects_33: "isl (ipv4_ip_network ''10.0.0.0/33'')"
  by (simp add: ipv4_ip_network_def parse_ipv4_def parse_octet_def parse_prefix_def is_digit_def)

theorem create_network_outcomes_witness:
  "create_network ipv4 empty_db ''Lab'' ''10.0.0.0/33'' [] ''net-1'' ''t0''
     = Inl (ValueError ''Invalid CIDR: 10.0.0.0/33'')
   \<and> create_network ipv4 (lab 0 []) ''Lab'' ''10.0.0.0/30'' [] ''net-2'' ''t1'' = Inl IntegrityError
   \<and> create_network ipv4 empty_db ''Lab'' ''10.0.0.0/30'' [] ''net-1'' ''t0'' = Inr (lab 0 [], ''net-1'')"
proof -
  have ok: "\<not> isl (ip_network ipv4 ''10.0.0.0/30'')" and bad: "isl (ip_network ipv4 ''10.0.0.0/33'')"
    by (simp_all add: ipv4_def ipv4_lab_network ipv4_rejects_33)
  have dup: "''Lab'' \<in> set (map n_name (networks (lab 0 [])))"
    by (simp add: lab_def lab_network_def)
  have fresh: "''Lab'' \<notin> set (map n_name (networks empty_db))"
      "''net-1'' \<notin> set (map n_id (networks empty_db))"
    by (simp_all add: empty_db_def)
  note t1 = create_network_outcomes [of ipv4 "''10.0.0.0/33''" empty_db "''Lab''" "[]" "''net-1''" "''t0''"]
  note t2 = create_network_outcomes [of ipv4 "''10.0.0.0/30''" "lab 0 []" "''Lab''" "[]" "''net-2''" "''t1''"]
  note t3 = create_network_outcomes [of ipv4 "''10.0.0.0/30''" empty_db "''Lab''" "[]" "''net-1''" "''t0''"]
  from t1 bad have 1: "create_network ipv4 empty_db ''Lab'' ''10.0.0.0/33'' [] ''net-1'' ''t0''
     = Inl (ValueError ''Invalid CIDR: 10.0.0.0/33'')" by simp
  from t2 ok dup have 2: "create_network ipv4 (lab 0 []) ''Lab'' ''10.0.0.0/30'' [] ''net-2'' ''t1'' = Inl IntegrityError"
    by blast
  from t3 ok fresh have "create_network ipv4 empty_db ''Lab'' ''10.0.0.0/30'' [] ''net-1'' ''t0''
     = Inr (empty_db\<lparr>networks := networks empty_db @
                     [\<lparr>n_id = ''net-1'', n_name = ''Lab'', n_cidr = ''10.0.0.0/30'', n_description = [],
                       n_created_at = ''t0'', n_peer_count = 0\<rparr>]\<rparr>, ''net-1'')" by blast
  then have 3: "create_network ipv4 empty_db ''Lab'' ''10.0.0.0/30'' [] ''net-1'' ''t0'' = Inr (lab 0 [], ''net-1'')"
    by (simp add: empty_db_def lab_def lab_network_def)
  from 1 2 3 show ?thesis by blast
qed

lemma find_update_groups:
  "find (\<lambda>p. p_name p = n) (map (\<lambda>p. if p_name p = n then p\<lparr>p_groups := gs\<rparr> else p) ps)
     = map_option (\<lambda>p. p\<lparr>p_groups := gs\<rparr>) (find (\<lambda>p. p_name p = n) ps)"
  by (induction ps) simp_all

lemma select_after_update_groups:
  "select_peer_by_name (update_groups gs n d) n
     = map_option (\<lambda>p. p\<lparr>p_groups := gs\<rparr>) (select_peer_by_name d n)"
  by (simp add: select_peer_by_name_def update_groups_def find_update_groups)

lemma update_groups_twice: "update_groups gs n (update_groups gs n d) = update_groups gs n d"
  by (simp add: update_groups_def comp_def if_distrib cong: if_cong)

lemma valid_groups_set:
  "set valid_groups = {''admin'', ''workers'', ''sensors'', ''public'', ''internal''}"
  by (simp add: valid_groups_def)

text \<open>C7: for a valid group and a peer name that exists, \<open>assign_group\<close> succeeds, a
  second call with the same arguments succeeds and leaves the database exactly as
  the first call left it, and the peer's groups are then the old ones together with
  the new group, without a duplicate if there was none before.\<close>

theorem assign_group_idempotent:
  assumes "grp \<in> set valid_groups" and "select_peer_by_name d peer_name = Some p"
  shows "\<exists>d1 p1. assign_group d peer_name grp = Inr d1
           \<and> assign_group d1 peer_name grp = Inr d1
           \<and> select_peer_by_name d1 peer_name = Some p1
           \<and> set (p_groups p1) = insert grp (set (p_groups p))
           \<and> (distinct (p_groups p) \<longrightarrow> distinct (p_groups p1))"
proof -
  define gs where "gs = (if grp \<notin> set (p_groups p) then p_groups p @ [grp] else p_groups p)"
  define d1 where "d1 = update_groups gs peer_name d"
  have first: "assign_group d peer_name grp = Inr d1"
    using assms by (simp add: assign_group_def gs_def d1_def)
  have sel: "select_peer_by_name d1 peer_name = Some (p\<lparr>p_groups := gs\<rparr>)"
    using assms(2) by (simp add: d1_def select_after_update_groups)
  have mem: "grp \<in> set gs"
    by (simp add: gs_def)
  have again: "assign_group d1 peer_name grp = Inr d1"
    using assms(1) sel mem by (simp add: assign_group_def d1_def update_groups_twice)
  have groups: "set gs = insert grp (set (p_groups p))"
    by (auto simp: gs_def)
  have dist: "distinct (p_groups p) \<longrightarrow> distinct gs"
    by (simp add: gs_def)
  from first again sel groups dist show ?thesis
    by (intro exI [of _ d1] exI [of _ "p\<lparr>p_groups := gs\<rparr>"]) simp
qed

lemma lab_select_a: "select_peer_by_name (lab 1 [peer_a]) ''a'' = Some peer_a"
  by (simp add: select_peer_by_name_def lab_def peer_a_def new_peer_def)

theorem assign_group_idempotent_witness:
  "assign_group (lab 1 [peer_a]) ''a'' ''admin'' = Inr (lab 1 [peer_a\<lparr>p_groups := [''admin'']\<rparr>])
   \<and> assign_group (lab 1 [peer_a\<lparr>p_groups := [''admin'']\<rparr>]) ''a'' ''admin''
       = Inr (lab 1 [peer_a\<lparr>p_groups := [''admin'']\<rparr>])"
proof -
  have v: "''admin'' \<in> set valid_groups"
    by (simp add: valid_groups_def)
  from assign_group_idempotent [OF v lab_select_a] obtain d1 where
    d1: "assign_group (lab 1 [peer_a]) ''a'' ''admin'' = Inr d1"
      "assign_group d1 ''a'' ''admin'' = Inr d1"
    by blast
  have "assign_group (lab 1 [peer_a]) ''a'' ''admin'' = Inr (lab 1 [peer_a\<lparr>p_groups := [''admin'']\<rparr>])"
    by (simp add: assign_group_def lab_select_a v update_groups_def)
      (simp add: lab_def peer_a_def new_peer_def)
  with d1 show ?thesis by simp
qed

text \<open>C8: a group outside \<open>admin\<close>, \<open>workers\<close>, \<open>sensors\<close>, \<open>public\<close>, \<open>internal\<close>
  makes \<open>assign_group\<close> raise \<open>ValueError("Invalid group: ...")\<close> whatever the database
  holds; a group of the list and a name that no peer has make it raise
  \<open>ValueError("Peer ... not found")\<close>.\<close>

theorem assign_group_errors:
  "(grp \<notin> {''admin'', ''workers'', ''sensors'', ''public'', ''internal''} \<longrightarrow>
      assign_group d peer_name grp = Inl (ValueError (''Invalid group: '' @ grp)))
   \<and> (grp \<in> {''admin'', ''workers'', ''sensors'', ''public'', ''internal''}
        \<and> peer_name \<notin> set (map p_name (peers d)) \<longrightarrow>
        assign_group d peer_name grp = Inl (ValueError (''Peer '' @ peer_name @ '' not found'')))"
proof -
  have none: "peer_name \<notin> set (map p_name (peers d)) \<Longrightarrow> select_peer_by_name d peer_name = None"
    by (auto simp: select_peer_by_name_def find_None_iff)
  show ?thesis
    unfolding valid_groups_set [symmetric]
    by (auto simp: assign_group_def none)
qed

theorem assign_group_errors_witness:
  "assign_group (lab 1 [peer_a]) ''a'' ''root'' = Inl (ValueError ''Invalid group: root'')
   \<and> assign_group (lab 1 [peer_a]) ''zed'' ''admin'' = Inl (ValueError ''Peer zed not found'')"
proof -
  have 1: "''root'' \<notin> {''admin'', ''workers'', ''sensors'', ''public'', ''internal''}"
    by simp
  have 2: "''admin'' \<in> {''admin'', ''workers'', ''sensors'', ''public'', ''internal''}"
    by simp
  have 3: "''zed'' \<notin> set (map p_name (peers (lab 1 [peer_a])))"
    by (simp add: lab_def peer_a_def new_peer_def)
  from assign_group_errors [of "''root''" "lab 1 [peer_a]" "''a''"] 1
  have a: "assign_group (lab 1 [peer_a]) ''a'' ''root'' = Inl (ValueError (''Invalid group: '' @ ''root''))"
    by blast
  from assign_group_errors [of "''admin''" "lab 1 [peer_a]" "''zed''"] 2 3
  have b: "assign_group (lab 1 [peer_a]) ''zed'' ''admin'' = Inl (ValueError (''Peer '' @ ''zed'' @ '' not found''))"
    by blast
  from a b show ?thesis by simp
qed

text \<open>C9: \<open>get_status\<close> leaves the database as it found it, and reports the network
  rows, the number of peer rows whose status is \<open>connected\<close> and the sum of the
  \<open>peer_count\<close> column.\<close>

theorem get_status_reads_only:
  "fst (get_status d now) = d
   \<and> r_networks (snd (get_status d now)) = networks d
   \<and> r_connected_peers (snd (get_status d now))
       = card {i. i < length (peers d) \<and> p_status (peers d ! i) = ''connected''}
   \<and> r_total_peers (snd (get_status d now)) = (\<Sum>n\<leftarrow>networks d. n_peer_count n)
   \<and> r_timestamp (snd (get_status d now)) = now"
  by (simp add: get_status_def Let_def length_filter_conv_card)

section \<open>The address allocator\<close>

lemma first_free_Some:
  assumes "first_free s E xs = Some a"
  shows "\<exists>i < length xs. a = s (xs ! i) \<and> a \<notin> E \<and> (\<forall>j < i. s (xs ! j) \<in> E)"
  using assms
proof (induction xs)
  case Nil
  then show ?case by simp
next
  case (Cons x xs)
  show ?case
  proof (cases "s x \<in> E")
    case True
    with Cons.prems have "first_free s E xs = Some a" by simp
    from Cons.IH [OF this] obtain i where i: "i < length xs" "a = s (xs ! i)" "a \<notin> E"
      "\<forall>j < i. s (xs ! j) \<in> E"
      by blast
    have "s ((x # xs) ! j) \<in> E" if "j < Suc i" for j
    proof (cases j)
      case 0
      with True show ?thesis by simp
    next
      case (Suc k)
      with that i(4) show ?thesis by simp
    qed
    with i(1-3) show ?thesis
      by (intro exI [of _ "Suc i"]) simp
  next
    case False
    with Cons.prems have "a = s x" by simp
    with False show ?thesis
      by (intro exI [of _ 0]) simp
  qed
qed

lemma first_free_None: "first_free s E xs = None \<longleftrightarrow> (\<forall>x \<in> set xs. s x \<in> E)"
  by (induction xs) simp_all

lemma first_free_not_existing: "first_free s E xs = Some a \<Longrightarrow> a \<notin> E"
  by (blast dest: first_free_Some)

text \<open>The IPv4 instance enumerates hosts in ascending order; below a /31 the
  network address and the broadcast address are not among them.\<close>

lemma ipv4_hosts_ascending: "sorted_wrt (<) (ipv4_hosts net)"
  by (simp add: ipv4_hosts_def Let_def)

lemma ipv4_hosts_set:
  "prefixlen net \<le> 30 \<Longrightarrow>
     set (ipv4_hosts net)
       = {a. network_address net < a \<and> a < network_address net + 2 ^ (32 - prefixlen net) - 1}"
  by (auto simp: ipv4_hosts_def Let_def)




lemma lab_existing_ips:
  "existing_ips (lab 0 []) ''net-1'' = []"
  "existing_ips (lab 1 [peer_a]) ''net-1'' = [''10.0.0.1'']"
  "existing_ips (lab 2 [peer_a, peer_b]) ''net-1'' = [''10.0.0.1'', ''10.0.0.2'']"
  by (simp_all add: existing_ips_def select_peers_def lab_def peer_a_def peer_b_def new_peer_def)


section \<open>Addresses along a sequence of calls\<close>

lemma truthy_append: "truthy (xs @ ys) = truthy xs @ truthy ys"
  by (induction xs rule: truthy.induct) simp_all

lemma truthy_filter_subset: "set (truthy (map f (filter P ps))) \<subseteq> set (truthy (map f ps))"
proof (induction ps)
  case Nil
  show ?case by simp
next
  case (Cons p ps)
  then show ?case
    by (cases "f p") auto
qed

lemma distinct_truthy_filter:
  "distinct (truthy (map f ps)) \<Longrightarrow> distinct (truthy (map f (filter P ps)))"
proof (induction ps)
  case Nil
  show ?case by simp
next
  case (Cons p ps)
  show ?case
  proof (cases "f p")
    case None
    with Cons show ?thesis by simp
  next
    case (Some a)
    with Cons truthy_filter_subset [of f P ps] show ?thesis
      by (auto split: if_splits)
  qed
qed

lemma existing_ips_increment [simp]:
  "existing_ips (increment_peer_count n d) network_id = existing_ips d network_id"
  by (simp add: existing_ips_def select_peers_def)

lemma existing_ips_decrement [simp]:
  "existing_ips (decrement_peer_count n d) network_id = existing_ips d network_id"
  by (simp add: existing_ips_def select_peers_def decrement_peer_count_def)

lemma existing_ips_store_peer:
  assumes "store_peer d n name ip uuid public_key = Inr (d', peer_id)"
  shows "existing_ips d' network_id
           = (if network_id = n then existing_ips d n @ truthy [ip] else existing_ips d network_id)"
  using store_peer_Inr(2) [OF assms]
  by (simp add: existing_ips_def select_peers_def new_peer_def truthy_append)

lemma distinct_existing_ips_delete:
  "distinct (existing_ips d network_id)
     \<Longrightarrow> distinct (existing_ips (delete_peer n peer_name d) network_id)"
  unfolding existing_ips_def select_peers_def delete_peer_def
  by (simp add: filter_filter conj_commute) (simp add: distinct_truthy_filter flip: filter_filter)

lemma distinct_existing_ips_store_peer:
  assumes "store_peer d n name ip uuid public_key = Inr (d', peer_id)"
    and "distinct (existing_ips d network_id)"
    and "\<And>a. ip = Some a \<Longrightarrow> a \<notin> set (existing_ips d n)"
  shows "distinct (existing_ips d' network_id)"
proof (cases ip)
  case None
  with assms(2) show ?thesis
    by (auto simp: existing_ips_store_peer [OF assms(1)])
next
  case (Some a)
  with assms(2) assms(3) [OF Some] show ?thesis
    by (auto simp: existing_ips_store_peer [OF assms(1)])
qed

lemma distinct_existing_ips_add_peer:
  assumes "add_peer L d n name ip uuid public_key = Inr (d', peer_id)"
    and "distinct (existing_ips d network_id)"
    and "\<And>a. ip = Some a \<Longrightarrow> a \<notin> set (existing_ips d n)"
  shows "distinct (existing_ips d' network_id)"
proof (cases ip)
  case (Some a)
  with assms(1) have "store_peer d n name (Some a) uuid public_key = Inr (d', peer_id)"
    by (simp add: add_peer_def split: option.splits)
  from distinct_existing_ips_store_peer [OF this assms(2)] assms(3) [OF Some] show ?thesis
    by simp
next
  case None
  with assms(1) obtain result network where
    st: "store_peer d n name (first_free (addr_str L) (set (existing_ips d n)) (hosts L network))
           uuid public_key = Inr (d', peer_id)"
    by (auto simp: add_peer_def split: option.splits sum.splits)
  show ?thesis
    by (rule distinct_existing_ips_store_peer [OF st assms(2)]) (rule first_free_not_existing)
qed

lemma distinct_existing_ips_run_call:
  assumes "distinct (existing_ips d network_id)"
    and "explicit_ips_unused L d [c]"
  shows "distinct (existing_ips (run_call L d c) network_id)"
proof (cases c)
  case (AddPeer n name ip uuid public_key)
  show ?thesis
  proof (cases "add_peer L d n name ip uuid public_key")
    case (Inl e)
    with AddPeer assms(1) show ?thesis by simp
  next
    case (Inr r)
    obtain d' peer_id where r: "r = (d', peer_id)"
      by (cases r)
    have "a \<notin> set (existing_ips d n)" if "ip = Some a" for a
      using assms(2) AddPeer that by simp
    from distinct_existing_ips_add_peer [OF Inr [unfolded r] assms(1) this]
    show ?thesis
      using AddPeer Inr r by simp
  qed
next
  case (RemovePeer n peer_name)
  with assms(1) show ?thesis
    by (simp add: remove_peer_def distinct_existing_ips_delete)
qed

lemma explicit_ips_unused_Cons:
  "explicit_ips_unused L d (c # cs)
     \<longleftrightarrow> explicit_ips_unused L d [c] \<and> explicit_ips_unused L (run_call L d c) cs"
  by (cases "(L, d, c # cs)" rule: explicit_ips_unused.cases) simp_all

text \<open>What the allocator does keep: from a database in which the peers of a network
  hold distinct addresses, a sequence of calls in which every address passed by the
  caller is unassigned in its network at the moment of the call leaves the addresses
  of the network distinct, because an address that \<open>add_peer\<close> picks itself is never an
  assigned one. (Assigned is what \<open>add_peer\<close> reads as such: neither \<open>NULL\<close> nor
  empty.)\<close>

lemma ips_stay_distinct:
  assumes "distinct (existing_ips d network_id)"
    and "explicit_ips_unused L d cs"
  shows "distinct (existing_ips (run_calls L d cs) network_id)"
  using assms
proof (induction cs arbitrary: d)
  case Nil
  then show ?case by simp
next
  case (Cons c cs)
  from Cons.prems(2) have one: "explicit_ips_unused L d [c]"
    and rest: "explicit_ips_unused L (run_call L d c) cs"
    by (simp_all add: explicit_ips_unused_Cons [of L d c cs])
  from distinct_existing_ips_run_call [OF Cons.prems(1) one]
  have "distinct (existing_ips (run_call L d c) network_id)" .
  from Cons.IH [OF this rest] show ?case by simp
qed

lemma lab_add_a_explicit:
  "add_peer ipv4 (lab 0 []) ''net-1'' ''a'' (Some ''10.0.0.1'') ''peer-1'' ''key-1''
     = Inr (lab 1 [peer_a], ''peer-1'')"
  by (simp add: add_peer_def lab_select_network store_peer_def insert_peer_def)
    (simp add: lab_def increment_peer_count_def lab_network_def peer_a_def)

lemma lab_add_twin:
  "add_peer ipv4 (lab 1 [peer_a]) ''net-1'' ''b'' (Some ''10.0.0.1'') ''peer-2'' ''key-2''
     = Inr (lab 2 [peer_a, peer_twin], ''peer-2'')"
  by (simp add: add_peer_def lab_select_network store_peer_def insert_peer_def)
    (simp add: lab_def increment_peer_count_def lab_network_def peer_a_def peer_twin_def
      new_peer_def)

lemma ips_stay_distinct_example:
  "explicit_ips_unused ipv4 (lab 0 [])
     [AddPeer ''net-1'' ''a'' (Some ''10.0.0.1'') ''peer-1'' ''key-1'',
      AddPeer ''net-1'' ''b'' None ''peer-2'' ''key-2'']
   \<and> run_calls ipv4 (lab 0 [])
       [AddPeer ''net-1'' ''a'' (Some ''10.0.0.1'') ''peer-1'' ''key-1'',
        AddPeer ''net-1'' ''b'' None ''peer-2'' ''key-2''] = lab 2 [peer_a, peer_b]
   \<and> distinct (existing_ips (lab 2 [peer_a, peer_b]) ''net-1'')"
proof -
  let ?cs = "[AddPeer ''net-1'' ''a'' (Some ''10.0.0.1'') ''peer-1'' ''key-1'',
      AddPeer ''net-1'' ''b'' None ''peer-2'' ''key-2'']"
  have start: "distinct (existing_ips (lab 0 []) ''net-1'')"
    by (simp add: lab_existing_ips)
  have unused: "explicit_ips_unused ipv4 (lab 0 []) ?cs"
    by (simp add: lab_existing_ips lab_add_a_explicit lab_add_b)
  have run: "run_calls ipv4 (lab 0 []) ?cs = lab 2 [peer_a, peer_b]"
    by (simp add: lab_add_a_explicit lab_add_b)
  from ips_stay_distinct [OF start unused] unused run show ?thesis
    by simp
qed

text \<open>C3 on the code: an address passed to \<open>add_peer\<close> is stored without being
  compared with the addresses of the network, so after \<open>add_peer\<close> for \<open>a\<close> (which gets
  \<open>10.0.0.1\<close>) the call for \<open>b\<close> with the address \<open>10.0.0.1\<close> succeeds, and two peers
  of the network hold the same address.\<close>

theorem explicit_ip_is_not_checked:
  "add_peer ipv4 (lab 0 []) ''net-1'' ''a'' None ''peer-1'' ''key-1'' = Inr (lab 1 [peer_a], ''peer-1'')
   \<and> add_peer ipv4 (lab 1 [peer_a]) ''net-1'' ''b'' (Some ''10.0.0.1'') ''peer-2'' ''key-2''
       = Inr (lab 2 [peer_a, peer_twin], ''peer-2'')
   \<and> select_peers (lab 2 [peer_a, peer_twin]) ''net-1'' = [peer_a, peer_twin]
   \<and> p_id peer_a \<noteq> p_id peer_twin
   \<and> p_ip peer_a = Some ''10.0.0.1'' \<and> p_ip peer_twin = Some ''10.0.0.1''"
  by (simp add: lab_add_a lab_add_twin)
    (simp add: select_peers_def lab_def peer_a_def peer_twin_def new_peer_def)

section \<open>The peer counter\<close>

lemma remove_peer_returns: "\<exists>d'. remove_peer d network_id peer_name = Inr d'"
  by (simp add: remove_peer_def)

lemma remove_peer_deletes:
  assumes "remove_peer d network_id peer_name = Inr d'"
  shows "peers d' = filter (\<lambda>p. \<not> (p_network_id p = network_id \<and> p_name p = peer_name)) (peers d)"
  using assms by (auto simp: remove_peer_def delete_peer_def decrement_peer_count_def)

lemma counts_nonneg_run_call: "counts_nonneg d \<Longrightarrow> counts_nonneg (run_call L d c)"
proof (cases c)
  case (AddPeer n name ip uuid public_key)
  assume nn: "counts_nonneg d"
  show ?thesis
  proof (cases "add_peer L d n name ip uuid public_key")
    case (Inl e)
    with AddPeer nn show ?thesis by simp
  next
    case (Inr r)
    obtain d' peer_id where r: "r = (d', peer_id)" by (cases r)
    from Inr [unfolded r] obtain ip' where "store_peer d n name ip' uuid public_key = Inr (d', peer_id)"
      by (rule add_peer_Inr)
    from store_peer_Inr(2) [OF this] nn have "counts_nonneg d'"
      by (auto simp: counts_nonneg_def increment_peer_count_def list_all_iff)
    with AddPeer Inr r show ?thesis by simp
  qed
next
  case (RemovePeer n peer_name)
  assume "counts_nonneg d"
  with RemovePeer show ?thesis
    by (auto simp: remove_peer_def counts_nonneg_def decrement_peer_count_def delete_peer_def
        list_all_iff)
qed

lemma counts_nonneg_run_calls: "counts_nonneg d \<Longrightarrow> counts_nonneg (run_calls L d cs)"
  by (induction cs arbitrary: d) (simp_all add: counts_nonneg_run_call)

lemma add_peer_exhausted:
  assumes "select_network d network_id = Some result"
    and "ip_network L (n_cidr result) = Inr network"
    and "\<forall>c \<in> set (hosts L network). addr_str L c \<in> set (existing_ips d network_id)"
    and "uuid \<notin> set (map p_id (peers d))"
    and "(network_id, name) \<notin> set (map (\<lambda>p. (p_network_id p, p_name p)) (peers d))"
  shows "add_peer L d network_id name None uuid public_key
           = Inr (increment_peer_count network_id
                    (d\<lparr>peers := peers d @ [new_peer uuid network_id name None public_key]\<rparr>), uuid)"
proof -
  from assms(3) have "first_free (addr_str L) (set (existing_ips d network_id)) (hosts L network) = None"
    by (simp add: first_free_None)
  with assms(1,2,4,5) show ?thesis
    by (simp add: add_peer_def store_peer_def insert_peer_def new_peer_def)
qed

text \<open>C1 on the code: after \<open>add_peer\<close> for \<open>a\<close>, a \<open>remove_peer\<close> for the absent name
  \<open>b\<close> deletes nothing and still lowers the counter, which then says 0 while one
  peer row references the network.\<close>

theorem peer_count_drifts:
  "create_network ipv4 empty_db ''Lab'' ''10.0.0.0/30'' [] ''net-1'' ''t0'' = Inr (lab 0 [], ''net-1'')
   \<and> add_peer ipv4 (lab 0 []) ''net-1'' ''a'' None ''peer-1'' ''key-1'' = Inr (lab 1 [peer_a], ''peer-1'')
   \<and> remove_peer (lab 1 [peer_a]) ''net-1'' ''b'' = Inr (lab 0 [peer_a])
   \<and> peer_count_of (lab 0 [peer_a]) ''net-1'' = Some 0
   \<and> peer_rows (lab 0 [peer_a]) ''net-1'' = 1"
  by (simp add: lab_create lab_add_a lab_remove_absent)
    (simp add: peer_count_of_def peer_rows_def select_network_def select_peers_def lab_def
      lab_network_def peer_a_def new_peer_def)

text \<open>C2 on the code: on the /30 both hosts are assigned after \<open>a\<close> and \<open>b\<close>; the third
  call without an address does not raise: it stores \<open>c\<close> with no address and the mask
  \<open>None/32\<close>, and counts it.\<close>

theorem exhausted_network_accepts_peer:
  "add_peer ipv4 (lab 0 []) ''net-1'' ''a'' None ''peer-1'' ''key-1'' = Inr (lab 1 [peer_a], ''peer-1'')
   \<and> add_peer ipv4 (lab 1 [peer_a]) ''net-1'' ''b'' None ''peer-2'' ''key-2''
       = Inr (lab 2 [peer_a, peer_b], ''peer-2'')
   \<and> map ipv4_str (ipv4_hosts \<lparr>network_address = 167772160, prefixlen = 30\<rparr>)
       = existing_ips (lab 2 [peer_a, peer_b]) ''net-1''
   \<and> add_peer ipv4 (lab 2 [peer_a, peer_b]) ''net-1'' ''c'' None ''peer-3'' ''key-3''
       = Inr (lab 3 [peer_a, peer_b, peer_c], ''peer-3'')
   \<and> p_ip peer_c = None \<and> p_allowed_ips peer_c = ''None/32''"
  by (simp add: lab_add_a lab_add_b lab_add_c ipv4_lab_hosts lab_existing_ips)
    (simp add: peer_c_def new_peer_def format_ip_def)

text \<open>C10 on the code: the peer that the call on the exhausted /30 creates is stored
  disconnected, with no endpoint, no last handshake and no groups, but it has no
  address and its allowed-IP mask is the text \<open>None/32\<close>.\<close>

theorem exhausted_peer_mask:
  "add_peer ipv4 (lab 2 [peer_a, peer_b]) ''net-1'' ''c'' None ''peer-3'' ''key-3''
     = Inr (lab 3 [peer_a, peer_b, peer_c], ''peer-3'')
   \<and> peers (lab 3 [peer_a, peer_b, peer_c]) = peers (lab 2 [peer_a, peer_b]) @ [peer_c]
   \<and> p_id peer_c = ''peer-3'' \<and> p_status peer_c = ''disconnected''
   \<and> p_endpoint peer_c = None \<and> p_last_handshake peer_c = None \<and> p_groups peer_c = []
   \<and> p_ip peer_c = None \<and> p_allowed_ips peer_c = ''None/32''"
  by (simp add: lab_add_c)
    (simp add: lab_def peer_c_def new_peer_def format_ip_def)

text \<open>C6 on the code: \<open>remove_peer\<close> for a name that no peer of the network has is not
  a no-op: no row is deleted, but the counter of the network goes from 1 to 0.\<close>

theorem remove_absent_peer_changes_count:
  "select_peers (lab 1 [peer_a]) ''net-1'' = [peer_a] \<and> p_name peer_a = ''a''
   \<and> remove_peer (lab 1 [peer_a]) ''net-1'' ''b'' = Inr (lab 0 [peer_a])
   \<and> peers (lab 0 [peer_a]) = peers (lab 1 [peer_a])
   \<and> peer_count_of (lab 1 [peer_a]) ''net-1'' = Some 1
   \<and> peer_count_of (lab 0 [peer_a]) ''net-1'' = Some 0"
  by (simp add: lab_remove_absent)
    (simp add: peer_count_of_def select_network_def select_peers_def lab_def
      lab_network_def peer_a_def new_peer_def)

end
